theory Spec2Isabelle
  imports Main "HOL-Library.Sublist"
begin

section \<open>Strings of the web interface\<close>

text \<open>
  Python strings are held as \<^typ>\<open>string\<close>. The pages contain a few characters outside
  ASCII; each is held as its UTF-8 bytes, the form in which the response leaves the
  server. Every character that the handlers inspect (braces, colons, brackets) is ASCII,
  and no byte of a multi-byte UTF-8 sequence is ASCII, so the byte view and the code point
  view agree on where those characters stand.
\<close>

definition robot_face :: string where
  "robot_face = [CHR 0xF0, CHR 0x9F, CHR 0xA4, CHR 0x96]"

definition house_building :: string where
  "house_building = [CHR 0xF0, CHR 0x9F, CHR 0x8F, CHR 0xA0]"

definition video_game :: string where
  "video_game = [CHR 0xF0, CHR 0x9F, CHR 0x8E, CHR 0xAE]"

definition hammer_and_wrench :: string where
  "hammer_and_wrench = [CHR 0xF0, CHR 0x9F, CHR 0x9B, CHR 0xA0, CHR 0xEF, CHR 0xB8, CHR 0x8F]"

definition leftwards_arrow :: string where
  "leftwards_arrow = [CHR 0xE2, CHR 0x86, CHR 0x90]"

text \<open>
  A triple-quoted literal is written here line by line, as it stands in the source:
  \<open>join_lines\<close> puts one newline between two consecutive lines, so the first element is
  what follows the opening quotes on their line and the last is what precedes the closing
  quotes on theirs.
\<close>

fun join_lines :: "string list \<Rightarrow> string" where
  "join_lines [] = []"
| "join_lines [l] = l"
| "join_lines (l # ls) = l @ CHR 0x0A # join_lines ls"

definition HTML_TEMPLATE :: string where
  \<open>HTML_TEMPLATE = join_lines
    [[],
     ''<!DOCTYPE html>'',
     ''<html lang="en">'',
     ''<head>'',
     ''    <meta charset="UTF-8">'',
     ''    <meta name="viewport" content="width=device-width, initial-scale=1.0">'',
     ''    <title>AgentGateway - {title}</title>'',
     ''    <style>'',
     ''        * { margin: 0; padding: 0; box-sizing: border-box; }'',
     ''        body { '',
     ''            font-family: -apple-system, BlinkMacSystemFont, \'Segoe UI\', system-ui, sans-serif; '',
     ''            background: #f5f5f7; color: #1d1d1f; line-height: 1.6; '',
     ''        }'',
     ''        .container { max-width: 1200px; margin: 0 auto; padding: 20px; }'',
     ''        .header { '',
     ''            background: #fff; border-radius: 12px; padding: 24px; margin-bottom: 24px; '',
     ''            box-shadow: 0 4px 16px rgba(0,0,0,0.1);'',
     ''        }'',
     ''        .header h1 { color: #007AFF; margin-bottom: 8px; }'',
     ''        .nav { display: flex; gap: 12px; margin-bottom: 24px; }'',
     ''        .nav a { '',
     ''            background: #007AFF; color: white; padding: 12px 20px; border-radius: 8px; '',
     ''            text-decoration: none; transition: all 0.2s; '',
     ''        }'',
     ''        .nav a:hover { background: #0056b3; transform: translateY(-1px); }'',
     ''        .nav a.active { background: #0056b3; }'',
     ''        .card { '',
     ''            background: #fff; border-radius: 12px; padding: 24px; margin-bottom: 24px; '',
     ''            box-shadow: 0 2px 8px rgba(0,0,0,0.1); '',
     ''        }'',
     ''        .status { '',
     ''            display: inline-block; padding: 4px 12px; border-radius: 20px; '',
     ''            font-size: 14px; font-weight: 500; '',
     ''        }'',
     ''        .status.healthy { background: #d4edda; color: #155724; }'',
     ''        .status.error { background: #f8d7da; color: #721c24; }'',
     ''        .metrics-grid { '',
     ''            display: grid; grid-template-columns: repeat(auto-fit, minmax(200px, 1fr)); '',
     ''            gap: 16px; margin: 20px 0; '',
     ''        }'',
     ''        .metric { background: #f8f9fa; padding: 16px; border-radius: 8px; text-align: center; }'',
     ''        .metric-value { font-size: 24px; font-weight: bold; color: #007AFF; }'',
     ''        .playground-form {'',
     ''            display: flex; flex-direction: column; gap: 16px;'',
     ''        }'',
     ''        .playground-form input, .playground-form select, .playground-form textarea {'',
     ''            padding: 12px; border: 1px solid #ddd; border-radius: 8px; font-size: 16px;'',
     ''        }'',
     ''        .playground-form button {'',
     ''            background: #007AFF; color: white; padding: 12px 24px; border: none;'',
     ''            border-radius: 8px; font-size: 16px; cursor: pointer;'',
     ''        }'',
     ''        .playground-form button:hover { background: #0056b3; }'',
     ''        .response-box {'',
     ''            background: #f8f9fa; border-radius: 8px; padding: 16px; margin-top: 16px;'',
     ''            border-left: 4px solid #007AFF; white-space: pre-wrap; font-family: monospace;'',
     ''        }'',
     ''        .agent-list {'',
     ''            display: grid; gap: 12px;'',
     ''        }'',
     ''        .agent-item {'',
     ''            background: #f8f9fa; padding: 16px; border-radius: 8px;'',
     ''            border-left: 4px solid #007AFF;'',
     ''        }'',
     ''    </style>'',
     ''</head>'',
     ''<body>'',
     ''    <div class="container">'',
     ''        <div class="header">'',
     ''            <h1>'' @ robot_face @ '' AgentGateway Web Interface</h1>'',
     ''            <p>Web interface for AgentGateway library - Version 1.0.0</p>'',
     ''        </div>'',
     ''        '',
     ''        <nav class="nav">'',
     ''            <a href="/" {home_active}>'' @ house_building @ '' Dashboard</a>'',
     ''            <a href="/playground" {playground_active}>'' @ video_game @ '' Playground</a>'',
     ''            <a href="/agents" {agents_active}>'' @ robot_face @ '' Agents</a>'',
     ''            <a href="/tools" {tools_active}>'' @ hammer_and_wrench @ '' Tools</a>'',
     ''        </nav>'',
     ''        '',
     ''        <div class="card">'',
     ''            {content}'',
     ''        </div>'',
     ''    </div>'',
     ''</body>'',
     ''</html>'',
     []]\<close>

definition simple_html :: string where
  \<open>simple_html = join_lines
    [[],
     ''    <!DOCTYPE html>'',
     ''    <html>'',
     ''    <head><title>AgentGateway</title></head>'',
     ''    <body>'',
     ''        <h1>'' @ robot_face @ '' AgentGateway Web Interface</h1>'',
     ''        <p>Status: Available</p>'',
     ''        <p><a href="/health">Health Check</a></p>'',
     ''        <p><a href="/api/docs">API Documentation</a></p>'',
     ''        <p><a href="/api/agents">List Agents</a></p>'',
     ''    </body>'',
     ''    </html>'',
     ''    '']\<close>

definition simple_playground :: string where
  \<open>simple_playground = join_lines
    [[],
     ''    <!DOCTYPE html>'',
     ''    <html>'',
     ''    <head>'',
     ''        <title>AgentGateway Playground</title>'',
     ''        <style>'',
     ''            body { font-family: Arial, sans-serif; margin: 40px; }'',
     ''            form { margin: 20px 0; }'',
     ''            input, select, textarea, button { margin: 10px 0; padding: 10px; width: 300px; }'',
     ''            button { width: 100px; background: #007AFF; color: white; border: none; border-radius: 5px; }'',
     ''            #response { background: #f0f0f0; padding: 15px; margin: 20px 0; border-radius: 5px; white-space: pre-wrap; }'',
     ''        </style>'',
     ''    </head>'',
     ''    <body>'',
     ''        <h1>'' @ video_game @ '' AgentGateway Playground</h1>'',
     ''        <p>Interactive chat interface for testing AI agents</p>'',
     ''        '',
     ''        <form onsubmit="sendMessage(event)">'',
     ''            <div>'',
     ''                <label>Agent Type:</label><br>'',
     ''                <select name="agent_type" id="agent_type">'',
     ''                    <option value="openai">OpenAI GPT</option>'',
     ''                    <option value="anthropic">Anthropic Claude</option>'',
     ''                    <option value="groq">Groq</option>'',
     ''                    <option value="bedrock">AWS Bedrock</option>'',
     ''                </select>'',
     ''            </div>'',
     ''            '',
     ''            <div>'',
     ''                <label>Model:</label><br>'',
     ''                <input type="text" name="model" id="model" placeholder="gpt-3.5-turbo" value="gpt-3.5-turbo">'',
     ''            </div>'',
     ''            '',
     ''            <div>'',
     ''                <label>Message:</label><br>'',
     ''                <textarea name="message" id="message" placeholder="Enter your message..." rows="4"></textarea>'',
     ''            </div>'',
     ''            '',
     ''            <button type="submit">Send</button>'',
     ''        </form>'',
     ''        '',
     ''        <div id="response" style="display: none;"></div>'',
     ''        '',
     ''        <script>'',
     ''        async function sendMessage(event) {'',
     ''            event.preventDefault();'',
     ''            const formData = new FormData(event.target);'',
     ''            const data = {'',
     ''                message: formData.get(\'message\'),'',
     ''                agent_type: formData.get(\'agent_type\'),'',
     ''                model: formData.get(\'model\')'',
     ''            };'',
     ''            '',
     ''            const responseDiv = document.getElementById(\'response\');'',
     ''            responseDiv.style.display = \'block\';'',
     ''            responseDiv.textContent = \'Sending message...\';'',
     ''            '',
     ''            try {'',
     ''                const response = await fetch(\'/api/chat\', {'',
     ''                    method: \'POST\','',
     ''                    headers: {\'Content-Type\': \'application/json\'},'',
     ''                    body: JSON.stringify(data)'',
     ''                });'',
     ''                '',
     ''                const result = await response.json();'',
     ''                responseDiv.textContent = JSON.stringify(result, null, 2);'',
     ''            } catch (error) {'',
     ''                responseDiv.textContent = \'Error: \' + error.message;'',
     ''            }'',
     ''        }'',
     ''        </script>'',
     ''        '',
     ''        <p><a href="/">'' @ leftwards_arrow @ '' Back to Dashboard</a></p>'',
     ''    </body>'',
     ''    </html>'',
     ''    '']\<close>

definition agents_list_unavailable :: string where
  \<open>agents_list_unavailable = join_lines
    [[],
     ''        <div style="background: #f8d7da; color: #721c24; padding: 16px; border-radius: 8px;">'',
     ''            AgentGateway library not available.'',
     ''        </div>'',
     ''        '']\<close>

definition agents_list_available :: string where
  \<open>agents_list_available = join_lines
    [[],
     ''        <div class="agent-list">'',
     ''            <div class="agent-item">'',
     ''                <h4>OpenAI GPT Agent</h4>'',
     ''                <p>Supports GPT-3.5, GPT-4 and other OpenAI models</p>'',
     ''            </div>'',
     ''            <div class="agent-item">'',
     ''                <h4>Anthropic Claude Agent</h4>'',
     ''                <p>Claude 3 and other Anthropic models</p>'',
     ''            </div>'',
     ''            <div class="agent-item">'',
     ''                <h4>Groq Agent</h4>'',
     ''                <p>Fast inference with Groq\'s LPU technology</p>'',
     ''            </div>'',
     ''            <div class="agent-item">'',
     ''                <h4>AWS Bedrock Agent</h4>'',
     ''                <p>Access to AWS Bedrock foundation models</p>'',
     ''            </div>'',
     ''            <div class="agent-item">'',
     ''                <h4>Fireworks AI Agent</h4>'',
     ''                <p>Fireworks AI hosted models</p>'',
     ''            </div>'',
     ''            <div class="agent-item">'',
     ''                <h4>Together AI Agent</h4>'',
     ''                <p>Together AI platform models</p>'',
     ''            </div>'',
     ''        </div>'',
     ''        '']\<close>

definition tools_content :: string where
  \<open>tools_content = join_lines
    [[],
     ''    <h2>'' @ hammer_and_wrench @ '' Built-in Tools</h2>'',
     ''    <p>AgentGateway includes various tools for enhanced agent capabilities.</p>'',
     ''    '',
     ''    <div class="agent-list">'',
     ''        <div class="agent-item">'',
     ''            <h4>Web Search Tool</h4>'',
     ''            <p>Search the web for current information</p>'',
     ''        </div>'',
     ''        <div class="agent-item">'',
     ''            <h4>Calculator Tool</h4>'',
     ''            <p>Perform mathematical calculations</p>'',
     ''        </div>'',
     ''        <div class="agent-item">'',
     ''            <h4>Weather Tool</h4>'',
     ''            <p>Get weather information for any location</p>'',
     ''        </div>'',
     ''        <div class="agent-item">'',
     ''            <h4>Translation Tool</h4>'',
     ''            <p>Translate text between languages</p>'',
     ''        </div>'',
     ''        <div class="agent-item">'',
     ''            <h4>Sentiment Analysis Tool</h4>'',
     ''            <p>Analyze sentiment of text</p>'',
     ''        </div>'',
     ''        <div class="agent-item">'',
     ''            <h4>Text Summarization Tool</h4>'',
     ''            <p>Summarize long text content</p>'',
     ''        </div>'',
     ''        <div class="agent-item">'',
     ''            <h4>Topic Detection Tool</h4>'',
     ''            <p>Detect topics in text content</p>'',
     ''        </div>'',
     ''        <div class="agent-item">'',
     ''            <h4>Ask User Tool</h4>'',
     ''            <p>Interactive tool to ask user for input</p>'',
     ''        </div>'',
     ''    </div>'',
     ''    '']\<close>

section \<open>\<open>str.format\<close>\<close>

text \<open>
  \<open>HTML_TEMPLATE.format(title=..., content=..., ...)\<close> is Python's \<open>str.format\<close> called
  with keyword arguments only. The template is read from left to right. Outside a
  replacement field, \<open>{{\<close> and \<open>}}\<close> stand for one brace, a single \<open>}\<close> is an error, and a
  single \<open>{\<close> opens a field. The field name runs up to \<open>}\<close>, \<open>:\<close> or \<open>!\<close>; after \<open>!\<close> comes
  one conversion character, after \<open>:\<close> the format specification, which runs up to the
  brace that closes the field. As soon as a field is complete its name is looked up, and
  the first error, in reading order, is the exception that \<open>format\<close> raises.
\<close>

datatype format_error =
    KeyError string
  | IndexError
  | ValueError string
  | Unmodelled

type_synonym kwargs = "(string \<times> string) list"

datatype format_mode =
    Literal
  | FieldName string
  | Bracket string
  | Conversion string
  | AfterConversion string char
  | FormatSpec string "char option" string nat

text \<open>
  The first part of a field name ends at the first \<open>.\<close> or \<open>[\<close>. When it is empty or a
  decimal number it refers to a positional argument, and there are none. Otherwise it is
  a keyword, and a keyword that was not passed raises \<open>KeyError\<close> with that keyword, spaces
  included. A keyword that was passed is replaced by its value; attribute and index
  access, conversions other than \<open>s\<close> and non-empty format specifications on such a value
  are outside this model and give \<open>Unmodelled\<close>.
\<close>

definition get_field :: "kwargs \<Rightarrow> string \<Rightarrow> char option \<Rightarrow> string \<Rightarrow> format_error + string" where
  "get_field kw field_name conversion format_spec =
     (let first = takeWhile (\<lambda>c. c \<noteq> CHR ''.'' \<and> c \<noteq> CHR ''['') field_name in
      if first = [] \<or> list_all (\<lambda>c. c \<in> set ''0123456789'') first then Inl IndexError
      else case map_of kw first of
        None \<Rightarrow> Inl (KeyError first)
      | Some v \<Rightarrow>
          if first = field_name \<and> conversion \<in> {None, Some CHR ''s''} \<and> format_spec = []
          then Inr v else Inl Unmodelled)"

fun format_scan :: "kwargs \<Rightarrow> format_mode \<Rightarrow> string \<Rightarrow> format_error + string"
  and render_field :: "kwargs \<Rightarrow> string \<Rightarrow> char option \<Rightarrow> string \<Rightarrow> string \<Rightarrow> format_error + string"
where
  "format_scan kw mode [] =
     (case mode of
        Literal \<Rightarrow> Inr []
      | FieldName name \<Rightarrow> Inl (ValueError ''expected '}' before end of string'')
      | Bracket name \<Rightarrow> Inl (ValueError ''expected '}' before end of string'')
      | Conversion name \<Rightarrow>
          Inl (ValueError ''end of string while looking for conversion specifier'')
      | AfterConversion name cv \<Rightarrow> Inl (ValueError ''unmatched '{' in format spec'')
      | FormatSpec name cv spec count \<Rightarrow> Inl (ValueError ''unmatched '{' in format spec''))"
| "format_scan kw mode (c # rest) =
     (case mode of
        Literal \<Rightarrow>
          if c = CHR ''{'' then
            (case rest of
               [] \<Rightarrow> Inl (ValueError ''Single '{' encountered in format string'')
             | d # rest' \<Rightarrow>
                 if d = CHR ''{'' then map_sum id ((#) c) (format_scan kw Literal rest')
                 else format_scan kw (FieldName []) rest)
          else if c = CHR ''}'' then
            (case rest of
               [] \<Rightarrow> Inl (ValueError ''Single '}' encountered in format string'')
             | d # rest' \<Rightarrow>
                 if d = CHR ''}'' then map_sum id ((#) c) (format_scan kw Literal rest')
                 else Inl (ValueError ''Single '}' encountered in format string''))
          else map_sum id ((#) c) (format_scan kw Literal rest)
      | FieldName name \<Rightarrow>
          if c = CHR ''{'' then Inl (ValueError ''unexpected '{' in field name'')
          else if c = CHR ''['' then format_scan kw (Bracket (name @ [c])) rest
          else if c = CHR ''}'' then render_field kw name None [] rest
          else if c = CHR '':'' then format_scan kw (FormatSpec name None [] 1) rest
          else if c = CHR ''!'' then format_scan kw (Conversion name) rest
          else format_scan kw (FieldName (name @ [c])) rest
      | Bracket name \<Rightarrow>
          if c = CHR '']'' then format_scan kw (FieldName (name @ [c])) rest
          else format_scan kw (Bracket (name @ [c])) rest
      | Conversion name \<Rightarrow> format_scan kw (AfterConversion name c) rest
      | AfterConversion name cv \<Rightarrow>
          if c = CHR ''}'' then render_field kw name (Some cv) [] rest
          else if c = CHR '':'' then format_scan kw (FormatSpec name (Some cv) [] 1) rest
          else Inl (ValueError ''expected ':' after conversion specifier'')
      | FormatSpec name cv spec count \<Rightarrow>
          if c = CHR ''{'' then format_scan kw (FormatSpec name cv (spec @ [c]) (count + 1)) rest
          else if c = CHR ''}'' then
            (if count = 1 then render_field kw name cv spec rest
             else format_scan kw (FormatSpec name cv (spec @ [c]) (count - 1)) rest)
          else format_scan kw (FormatSpec name cv (spec @ [c]) count) rest)"
| "render_field kw name cv spec rest =
     (case get_field kw name cv spec of
        Inl e \<Rightarrow> Inl e
      | Inr v \<Rightarrow> map_sum id ((@) v) (format_scan kw Literal rest))"

definition format :: "string \<Rightarrow> kwargs \<Rightarrow> format_error + string" where
  "format template kw = format_scan kw Literal template"


section \<open>Values of the handlers\<close>

text \<open>
  A handler of the JSON API returns a Python \<open>dict\<close> literal. Its keys are kept in the
  order in which they are written, which is the order of the serialised object.
\<close>

datatype json =
    JStr string
  | JBool bool
  | JList "json list"
  | JObj "(string \<times> json) list"

text \<open>\<open>raise HTTPException(status_code=..., detail=...)\<close>\<close>

datatype HTTPException = HTTPException (status_code: nat) (detail: string)

section \<open>The optional library\<close>

text \<open>
  \<open>from agentgateway.agent_gateway import AgentGateway, AgentType\<close> is tried once, when
  the module is loaded, and \<open>AGENTGATEWAY_AVAILABLE\<close> records whether it succeeded. The
  library is not part of this repository, so the handlers take it as a parameter: what
  calling \<open>AgentGateway()\<close> gives, and what reading the attribute \<open>AgentType.NAME\<close> gives
  for each \<open>NAME\<close>. Either may raise; an \<open>exception\<close> is an instance of Python's
  \<open>Exception\<close>, which is what \<open>except Exception\<close> catches, and \<open>str\<close> is its text
  \<open>str(e)\<close>. The handlers read the library only when the flag is true.
\<close>

datatype exception = Exception (str: string)

record ('g, 't) agent_gateway =
  AgentGateway :: "exception + 'g"
  AgentType :: "string \<Rightarrow> exception + 't"

definition and_then :: "'e + 'a \<Rightarrow> ('a \<Rightarrow> 'e + 'b) \<Rightarrow> 'e + 'b" where
  "and_then r f = (case r of Inl e \<Rightarrow> Inl e | Inr v \<Rightarrow> f v)"

text \<open>
  Two libraries for the examples: one whose constructor returns and whose \<open>AgentType\<close>
  has every member asked for (a member is held as its name), and one whose constructor
  raises.
\<close>

definition working_library :: "(unit, string) agent_gateway" where
  "working_library = \<lparr>AgentGateway = Inr (), AgentType = Inr\<rparr>"

definition raising_library :: "(unit, string) agent_gateway" where
  "raising_library = \<lparr>AgentGateway = Inl (Exception ''no API key''), AgentType = Inr\<rparr>"

section \<open>\<open>ChatRequest\<close>\<close>

text \<open>
  \<open>class ChatRequest(BaseModel)\<close> declares \<open>message: str\<close> without a default and
  \<open>agent_type\<close> and \<open>model\<close> with one. The request body is taken here as a JSON object
  whose values are strings, a map from field names to strings; building the model from it
  fails when a field without default is missing and fills in the default of any other
  missing field.
\<close>

record ChatRequest =
  message :: string
  agent_type :: string
  model :: string

datatype ValidationError = Field_required string

definition ChatRequest_validate :: "(string \<rightharpoonup> string) \<Rightarrow> ValidationError + ChatRequest" where
  "ChatRequest_validate body =
     (case body ''message'' of
        None \<Rightarrow> Inl (Field_required ''message'')
      | Some m \<Rightarrow>
          Inr \<lparr>message = m,
               agent_type = (case body ''agent_type'' of None \<Rightarrow> ''openai'' | Some a \<Rightarrow> a),
               model = (case body ''model'' of None \<Rightarrow> ''gpt-3.5-turbo'' | Some v \<Rightarrow> v)\<rparr>)"

section \<open>Page handlers\<close>

definition dashboard :: string where
  "dashboard = simple_html"

definition playground :: string where
  "playground = simple_playground"

definition agents_list :: "bool \<Rightarrow> string" where
  "agents_list AGENTGATEWAY_AVAILABLE =
     (if \<not> AGENTGATEWAY_AVAILABLE then agents_list_unavailable else agents_list_available)"

definition agents_content :: "bool \<Rightarrow> string" where
  "agents_content AGENTGATEWAY_AVAILABLE =
     join_lines
       [[],
        ''    <h2>'' @ robot_face @ '' Available Agents</h2>'',
        ''    <p>AgentGateway supports multiple AI providers and models.</p>'',
        ''    '' @ agents_list AGENTGATEWAY_AVAILABLE,
        ''    '']"

definition agents :: "bool \<Rightarrow> format_error + string" where
  \<open>agents AGENTGATEWAY_AVAILABLE =
     format HTML_TEMPLATE
       [(''title'', ''Agents''),
        (''content'', agents_content AGENTGATEWAY_AVAILABLE),
        (''home_active'', []),
        (''playground_active'', []),
        (''agents_active'', ''class="active"''),
        (''tools_active'', [])]\<close>

definition tools :: "format_error + string" where
  \<open>tools =
     format HTML_TEMPLATE
       [(''title'', ''Tools''),
        (''content'', tools_content),
        (''home_active'', []),
        (''playground_active'', []),
        (''agents_active'', []),
        (''tools_active'', ''class="active"'')]\<close>

section \<open>API handlers\<close>

definition health_check :: "bool \<Rightarrow> json" where
  "health_check AGENTGATEWAY_AVAILABLE =
     JObj [(''status'', JStr (if AGENTGATEWAY_AVAILABLE then ''healthy'' else ''limited'')),
           (''agentgateway_available'', JBool AGENTGATEWAY_AVAILABLE),
           (''version'', JStr ''1.0.0'')]"

text \<open>
  The body of the \<open>try\<close> block of \<open>chat\<close>, with its local variables: the constructor is
  called, the dictionary literal reads four members of \<open>AgentType\<close> in the order written,
  the default passed to \<open>get\<close> reads \<open>AgentType.OPENAI_GPT\<close> once more, and the f-string
  puts the three fields of the request between its fixed parts. The first exception ends
  the block.
\<close>

record ('g, 't) chat_locals =
  gateway :: 'g
  agent_type_map :: "(string \<times> 't) list"
  agent_type' :: 't
  response_text :: string

definition chat_try ::
  "('g, 't) agent_gateway \<Rightarrow> ChatRequest \<Rightarrow> exception + (('g, 't) chat_locals \<times> json)" where
  \<open>chat_try lib request =
     and_then (AgentGateway lib) (\<lambda>g.
     and_then (AgentType lib ''OPENAI_GPT'') (\<lambda>openai.
     and_then (AgentType lib ''ANTHROPIC_CLAUDE'') (\<lambda>anthropic.
     and_then (AgentType lib ''GROQ'') (\<lambda>groq.
     and_then (AgentType lib ''BEDROCK_CONVERSE'') (\<lambda>bedrock.
     and_then (AgentType lib ''OPENAI_GPT'') (\<lambda>default.
       let m = [(''openai'', openai), (''anthropic'', anthropic),
                (''groq'', groq), (''bedrock'', bedrock)];
           a = (case map_of m (agent_type request) of Some v \<Rightarrow> v | None \<Rightarrow> default);
           text = ''Mock response for '' @ [CHR 0x27] @ message request @ [CHR 0x27] @ '' using '' @
                  agent_type request @ '' model '' @ model request
       in Inr (\<lparr>gateway = g, agent_type_map = m, agent_type' = a, response_text = text\<rparr>,
               JObj [(''response'', JStr text),
                     (''agent_type'', JStr (agent_type request)),
                     (''model'', JStr (model request)),
                     (''status'', JStr ''success'')])))))))\<close>

definition chat ::
  "bool \<Rightarrow> ('g, 't) agent_gateway \<Rightarrow> ChatRequest \<Rightarrow> HTTPException + json" where
  "chat AGENTGATEWAY_AVAILABLE lib request =
     (if \<not> AGENTGATEWAY_AVAILABLE
      then Inl (HTTPException 503 ''AgentGateway library not available'')
      else case chat_try lib request of
        Inr (locals, result) \<Rightarrow> Inr result
      | Inl e \<Rightarrow> Inl (HTTPException 500 (''Error: '' @ str e)))"

definition list_agents :: "bool \<Rightarrow> json" where
  "list_agents AGENTGATEWAY_AVAILABLE =
     (if \<not> AGENTGATEWAY_AVAILABLE
      then JObj [(''agents'', JList []), (''available'', JBool False)]
      else JObj
        [(''agents'', JList
           [JObj [(''id'', JStr ''openai''), (''name'', JStr ''OpenAI GPT''),
                  (''description'', JStr ''OpenAI GPT models'')],
            JObj [(''id'', JStr ''anthropic''), (''name'', JStr ''Anthropic Claude''),
                  (''description'', JStr ''Claude models'')],
            JObj [(''id'', JStr ''groq''), (''name'', JStr ''Groq''),
                  (''description'', JStr ''Groq LPU models'')],
            JObj [(''id'', JStr ''bedrock''), (''name'', JStr ''AWS Bedrock''),
                  (''description'', JStr ''Bedrock models'')]]),
         (''available'', JBool True)])"

section \<open>The Context7 service\<close>

definition context7_health_check :: json where
  "context7_health_check = JObj [(''status'', JStr ''healthy''), (''service'', JStr ''context7-mcp'')]"

definition context7_mcp_capabilities :: json where
  "context7_mcp_capabilities =
     JObj [(''capabilities'', JList [JStr ''search'', JStr ''upload'', JStr ''index'']),
           (''service'', JStr ''context7-mcp'')]"

definition context7_root :: json where
  "context7_root = JObj [(''message'', JStr ''Context7 MCP Service''), (''version'', JStr ''0.1.0'')]"

section \<open>Routes\<close>

text \<open>
  The decorators bind each handler to a method and a path. What the web framework does
  with a handler's outcome is the part of it that the handlers rely on: a returned value
  is sent with status 200, as HTML where the route says \<open>response_class=HTMLResponse\<close> and
  as JSON otherwise; an \<open>HTTPException\<close> is sent with its own status code and its detail;
  any other exception that leaves the handler is answered with status 500. A path that
  no decorator of the file names is left to the framework (\<open>None\<close>). The handler of the
  POST route receives the request body as a \<open>ChatRequest\<close> that has been built already:
  the parameter \<open>request: ChatRequest\<close> makes the framework build it from the body before
  it calls the handler, and a body from which it cannot be built is answered with status
  422 and the list of the fields at fault, without the handler being called.
\<close>

datatype content =
    HTML string
  | JSON json
  | PlainText string
  | ValidationErrors "ValidationError list"

record response =
  status :: nat
  content :: content

definition internal_server_error :: response where
  "internal_server_error = \<lparr>status = 500, content = PlainText ''Internal Server Error''\<rparr>"

definition html_response :: "format_error + string \<Rightarrow> response" where
  "html_response r =
     (case r of Inr s \<Rightarrow> \<lparr>status = 200, content = HTML s\<rparr> | Inl e \<Rightarrow> internal_server_error)"

definition json_response :: "HTTPException + json \<Rightarrow> response" where
  "json_response r =
     (case r of
        Inr v \<Rightarrow> \<lparr>status = 200, content = JSON v\<rparr>
      | Inl (HTTPException c d) \<Rightarrow> \<lparr>status = c, content = JSON (JObj [(''detail'', JStr d)])\<rparr>)"

definition app_get :: "bool \<Rightarrow> string \<Rightarrow> response option" where
  "app_get AGENTGATEWAY_AVAILABLE path =
     (if path = ''/'' then Some (html_response (Inr dashboard))
      else if path = ''/playground'' then Some (html_response (Inr playground))
      else if path = ''/agents'' then Some (html_response (agents AGENTGATEWAY_AVAILABLE))
      else if path = ''/tools'' then Some (html_response tools)
      else if path = ''/health'' then Some (json_response (Inr (health_check AGENTGATEWAY_AVAILABLE)))
      else if path = ''/api/agents'' then Some (json_response (Inr (list_agents AGENTGATEWAY_AVAILABLE)))
      else None)"

definition app_post ::
  "bool \<Rightarrow> ('g, 't) agent_gateway \<Rightarrow> string \<Rightarrow> ChatRequest \<Rightarrow> response option" where
  "app_post AGENTGATEWAY_AVAILABLE lib path request =
     (if path = ''/api/chat'' then Some (json_response (chat AGENTGATEWAY_AVAILABLE lib request))
      else None)"


definition context7_get :: "string \<Rightarrow> response option" where
  "context7_get path =
     (if path = ''/health'' then Some (json_response (Inr context7_health_check))
      else if path = ''/mcp/capabilities'' then Some (json_response (Inr context7_mcp_capabilities))
      else if path = ''/'' then Some (json_response (Inr context7_root))
      else None)"


section \<open>Properties of \<open>str.format\<close> on the page template\<close>

text \<open>
  The style sheet inside \<open>HTML_TEMPLATE\<close> is written with single braces. The first of its
  rules, \<open>* { margin: 0; padding: 0; box-sizing: border-box; }\<close>, is therefore read as a
  replacement field whose name is \<open>margin\<close> with a leading space and whose format
  specification is the rest of the rule. The field \<open>{title}\<close> before it is filled in; the
  lookup of the second field fails, whatever follows in the template.
\<close>

lemma format_scan_template_head:
  assumes "map_of kw ''title'' = Some t" and "map_of kw '' margin'' = None"
  shows \<open>format_scan kw Literal
    ([] @ CHR 0x0A #
     ''<!DOCTYPE html>'' @ CHR 0x0A #
     ''<html lang="en">'' @ CHR 0x0A #
     ''<head>'' @ CHR 0x0A #
     ''    <meta charset="UTF-8">'' @ CHR 0x0A #
     ''    <meta name="viewport" content="width=device-width, initial-scale=1.0">'' @ CHR 0x0A #
     ''    <title>AgentGateway - {title}</title>'' @ CHR 0x0A #
     ''    <style>'' @ CHR 0x0A #
     ''        * { margin: 0; padding: 0; box-sizing: border-box; }'' @ CHR 0x0A # rest)
   = Inl (KeyError '' margin'')\<close>
  using assms by (simp add: get_field_def)

lemma format_HTML_TEMPLATE:
  assumes "map_of kw ''title'' = Some t" and "map_of kw '' margin'' = None"
  shows "format HTML_TEMPLATE kw = Inl (KeyError '' margin'')"
  unfolding format_def HTML_TEMPLATE_def join_lines.simps(3)
  by (rule format_scan_template_head [OF assms])

lemma agents_KeyError: "agents flag = Inl (KeyError '' margin'')"
  unfolding agents_def by (rule format_HTML_TEMPLATE [where t = "''Agents''"]) simp_all

lemma tools_KeyError: "tools = Inl (KeyError '' margin'')"
  unfolding tools_def by (rule format_HTML_TEMPLATE [where t = "''Tools''"]) simp_all

lemma dashboard_nonempty: "dashboard \<noteq> []"
  unfolding dashboard_def simple_html_def by (subst join_lines.simps(3)) (simp only: append_Nil list.distinct not_False_eq_True)

lemma playground_nonempty: "playground \<noteq> []"
  unfolding playground_def simple_playground_def by (subst join_lines.simps(3)) (simp only: append_Nil list.distinct not_False_eq_True)


section \<open>Substrings of texts written line by line\<close>

text \<open>
  A text without a newline occurs in lines joined by newlines exactly when it occurs in
  one of the lines.
\<close>

lemma prefix_before:
  assumes "c \<notin> set p"
  shows "prefix p (xs @ c # ys) \<longleftrightarrow> prefix p xs"
  using assms by (auto simp add: prefix_append prefix_Cons)

lemma sublist_across:
  assumes "c \<notin> set p"
  shows "sublist p (xs @ c # ys) \<longleftrightarrow> sublist p xs \<or> sublist p ys"
proof (induction xs)
  case Nil
  from assms show ?case by (auto simp add: sublist_Cons_right prefix_Cons)
next
  case (Cons x xs)
  have "sublist p ((x # xs) @ c # ys) \<longleftrightarrow>
        prefix p ((x # xs) @ c # ys) \<or> sublist p (xs @ c # ys)"
    by (simp add: sublist_Cons_right)
  also have "\<dots> \<longleftrightarrow> prefix p (x # xs) \<or> sublist p xs \<or> sublist p ys"
    unfolding prefix_before [OF assms] Cons.IH by simp
  also have "\<dots> \<longleftrightarrow> sublist p (x # xs) \<or> sublist p ys"
    by (simp add: sublist_Cons_right)
  finally show ?case .
qed

lemma sublist_join_lines:
  assumes "CHR 0x0A \<notin> set p"
  shows "sublist p (join_lines (l # ls)) \<longleftrightarrow> list_ex (sublist p) (l # ls)"
proof (induction ls arbitrary: l)
  case Nil
  show ?case by simp
next
  case (Cons a ls)
  have "join_lines (l # a # ls) = l @ CHR 0x0A # join_lines (a # ls)" by simp
  then show ?case using Cons.IH [of a] sublist_across [OF assms, of l "join_lines (a # ls)"]
    by simp
qed

lemma join_lines_prepend: "a @ join_lines (l # ls) = join_lines ((a @ l) # ls)"
  by (cases ls) simp_all

lemma tools_content_no_panel: "\<not> sublist ''not available'' tools_content"
  unfolding tools_content_def
  by (subst sublist_join_lines) (simp_all add: sublist_Cons_right hammer_and_wrench_def)

lemma agents_available_no_panel: "\<not> sublist ''not available'' (agents_content True)"
  unfolding agents_content_def agents_list_def agents_list_available_def
  apply (simp only: join_lines_prepend simp_thms if_True if_False)
  apply (simp add: sublist_join_lines sublist_Cons_right robot_face_def del: join_lines.simps)
  done

lemma agents_unavailable_panel:
  "sublist ''AgentGateway library not available.'' (agents_content False)"
  unfolding agents_content_def agents_list_def agents_list_unavailable_def
  apply (simp only: join_lines_prepend simp_thms if_True if_False)
  apply (simp add: sublist_join_lines sublist_Cons_right robot_face_def del: join_lines.simps)
  done


section \<open>The f-string of the chat handler\<close>

lemma response_text_contains:
  "sublist m (p @ [q] @ m @ [q] @ u @ a @ v @ d)"
  "sublist a (p @ [q] @ m @ [q] @ u @ a @ v @ d)"
  "sublist d (p @ [q] @ m @ [q] @ u @ a @ v @ d)"
proof -
  show "sublist m (p @ [q] @ m @ [q] @ u @ a @ v @ d)"
    unfolding sublist_def by (rule exI [of _ "p @ [q]"], rule exI [of _ "[q] @ u @ a @ v @ d"]) simp
  show "sublist a (p @ [q] @ m @ [q] @ u @ a @ v @ d)"
    unfolding sublist_def by (rule exI [of _ "p @ [q] @ m @ [q] @ u"], rule exI [of _ "v @ d"]) simp
  show "sublist d (p @ [q] @ m @ [q] @ u @ a @ v @ d)"
    unfolding sublist_def by (rule exI [of _ "p @ [q] @ m @ [q] @ u @ a @ v"], rule exI [of _ "[]"]) simp
qed

lemma chat_try_returns:
  assumes "AgentGateway lib = Inr g"
    and "AgentType lib ''OPENAI_GPT'' = Inr t1"
    and "AgentType lib ''ANTHROPIC_CLAUDE'' = Inr t2"
    and "AgentType lib ''GROQ'' = Inr t3"
    and "AgentType lib ''BEDROCK_CONVERSE'' = Inr t4"
  shows "\<exists>locals. chat_try lib request =
     Inr (locals,
          JObj [(''response'', JStr (''Mock response for '' @ [CHR 0x27] @ message request @
                    [CHR 0x27] @ '' using '' @ agent_type request @ '' model '' @ model request)),
                (''agent_type'', JStr (agent_type request)),
                (''model'', JStr (model request)),
                (''status'', JStr ''success'')])"
  using assms by (simp add: chat_try_def and_then_def Let_def)


section \<open>The claims\<close>

text \<open>
  C1, as amended. With the flag true, and with the constructor \<open>AgentGateway()\<close> and the
  four members of \<open>AgentType\<close> that the handler reads raising nothing, \<open>POST /api/chat\<close>
  answers with status 200 and a JSON object whose \<open>response\<close> is the fixed sentence around
  the caller's message, agent type and model, each of which is a substring of it. The
  sentence is built from the request alone: neither the gateway object nor the members of
  \<open>AgentType\<close> occur in it.
\<close>

theorem chat_success_response:
  assumes "AgentGateway lib = Inr g"
    and "AgentType lib ''OPENAI_GPT'' = Inr t1"
    and "AgentType lib ''ANTHROPIC_CLAUDE'' = Inr t2"
    and "AgentType lib ''GROQ'' = Inr t3"
    and "AgentType lib ''BEDROCK_CONVERSE'' = Inr t4"
  shows "\<exists>text.
     app_post True lib ''/api/chat'' request =
       Some \<lparr>status = 200,
             content = JSON (JObj [(''response'', JStr text),
                                   (''agent_type'', JStr (agent_type request)),
                                   (''model'', JStr (model request)),
                                   (''status'', JStr ''success'')])\<rparr>
     \<and> text = ''Mock response for '' @ [CHR 0x27] @ message request @ [CHR 0x27] @
              '' using '' @ agent_type request @ '' model '' @ model request
     \<and> sublist (message request) text
     \<and> sublist (agent_type request) text
     \<and> sublist (model request) text"
proof -
  let ?text = "''Mock response for '' @ [CHR 0x27] @ message request @ [CHR 0x27] @
              '' using '' @ agent_type request @ '' model '' @ model request"
  from chat_try_returns [OF assms, of request] obtain locals where
    "chat_try lib request =
     Inr (locals,
          JObj [(''response'', JStr ?text),
                (''agent_type'', JStr (agent_type request)),
                (''model'', JStr (model request)),
                (''status'', JStr ''success'')])" ..
  then have r: "app_post True lib ''/api/chat'' request =
       Some \<lparr>status = 200,
             content = JSON (JObj [(''response'', JStr ?text),
                                   (''agent_type'', JStr (agent_type request)),
                                   (''model'', JStr (model request)),
                                   (''status'', JStr ''success'')])\<rparr>"
    by (simp add: app_post_def chat_def json_response_def)
  show ?thesis
    by (intro exI [of _ ?text] conjI r refl response_text_contains)
qed


text \<open>The example of the specification: message \<open>hi\<close>, agent type \<open>groq\<close>, model \<open>llama\<close>.\<close>

theorem chat_success_response_witness:
  "app_post True working_library ''/api/chat''
       \<lparr>message = ''hi'', agent_type = ''groq'', model = ''llama''\<rparr> =
     Some \<lparr>status = 200,
           content = JSON (JObj [(''response'', JStr ''Mock response for 'hi' using groq model llama''),
                                 (''agent_type'', JStr ''groq''),
                                 (''model'', JStr ''llama''),
                                 (''status'', JStr ''success'')])\<rparr>
   \<and> sublist ''hi'' ''Mock response for 'hi' using groq model llama''
   \<and> sublist ''groq'' ''Mock response for 'hi' using groq model llama''
   \<and> sublist ''llama'' ''Mock response for 'hi' using groq model llama''"
  using chat_success_response [of working_library "()" "''OPENAI_GPT''" "''ANTHROPIC_CLAUDE''"
      "''GROQ''" "''BEDROCK_CONVERSE''" "\<lparr>message = ''hi'', agent_type = ''groq'', model = ''llama''\<rparr>"]
  by (simp add: working_library_def)


text \<open>
  C1 as stated fails where the constructor raises: the flag is true and the same request
  is answered with status 500.
\<close>

theorem chat_constructor_raises_500:
  "app_post True raising_library ''/api/chat''
       \<lparr>message = ''hi'', agent_type = ''groq'', model = ''llama''\<rparr> =
     Some \<lparr>status = 500, content = JSON (JObj [(''detail'', JStr ''Error: no API key'')])\<rparr>"
  by (simp add: app_post_def chat_def chat_try_def and_then_def raising_library_def json_response_def)






text \<open>
  C3. \<open>GET /api/agents\<close> returns an empty list and \<open>available\<close> false when the flag is
  false. When it is true it returns \<open>available\<close> true and exactly four descriptors, each
  with the keys \<open>id\<close>, \<open>name\<close> and \<open>description\<close> in this order, whose ids are \<open>openai\<close>,
  \<open>anthropic\<close>, \<open>groq\<close> and \<open>bedrock\<close>.
\<close>

theorem list_agents_catalog:
  "list_agents False = JObj [(''agents'', JList []), (''available'', JBool False)]
   \<and> (\<exists>a b c d.
         list_agents True = JObj [(''agents'', JList [a, b, c, d]), (''available'', JBool True)]
       \<and> map (\<lambda>j. case j of JObj kvs \<Rightarrow> map fst kvs | _ \<Rightarrow> []) [a, b, c, d]
           = replicate 4 [''id'', ''name'', ''description'']
       \<and> map (\<lambda>j. case j of JObj kvs \<Rightarrow> map_of kvs ''id'' | _ \<Rightarrow> None) [a, b, c, d]
           = map (Some \<circ> JStr) [''openai'', ''anthropic'', ''groq'', ''bedrock''])
   \<and> app_get flag ''/api/agents'' = Some \<lparr>status = 200, content = JSON (list_agents flag)\<rparr>"
  by (simp add: list_agents_def app_get_def json_response_def numeral_eq_Suc)


text \<open>
  C4. \<open>GET /health\<close> returns status \<open>limited\<close> and \<open>agentgateway_available\<close> false when
  the flag is false, status \<open>healthy\<close> and \<open>agentgateway_available\<close> true when it is true,
  and the version \<open>1.0.0\<close> in both cases; the handler has no other input than the flag.
\<close>

theorem health_check_status:
  "health_check False =
     JObj [(''status'', JStr ''limited''), (''agentgateway_available'', JBool False),
           (''version'', JStr ''1.0.0'')]
   \<and> health_check True =
     JObj [(''status'', JStr ''healthy''), (''agentgateway_available'', JBool True),
           (''version'', JStr ''1.0.0'')]
   \<and> app_get flag ''/health'' = Some \<lparr>status = 200, content = JSON (health_check flag)\<rparr>"
  by (simp add: health_check_def app_get_def json_response_def)


text \<open>
  C5, as amended. When the body of the \<open>try\<close> block raises an exception \<open>e\<close>, the chat
  handler raises \<open>HTTPException\<close> with status 500 whose detail is \<open>Error:\<close>, a space, and
  the text \<open>str(e)\<close>.
\<close>

theorem chat_exception_500:
  assumes "chat_try lib request = Inl e"
  shows "chat True lib request = Inl (HTTPException 500 (''Error: '' @ str e))
     \<and> app_post True lib ''/api/chat'' request =
         Some \<lparr>status = 500, content = JSON (JObj [(''detail'', JStr (''Error: '' @ str e))])\<rparr>"
  using assms by (simp add: chat_def app_post_def json_response_def)

theorem chat_exception_500_witness:
  "chat_try raising_library \<lparr>message = ''hi'', agent_type = ''groq'', model = ''llama''\<rparr>
     = Inl (Exception ''no API key'')
   \<and> chat True raising_library \<lparr>message = ''hi'', agent_type = ''groq'', model = ''llama''\<rparr>
     = Inl (HTTPException 500 ''Error: no API key'')
   \<and> app_post True raising_library ''/api/chat''
       \<lparr>message = ''hi'', agent_type = ''groq'', model = ''llama''\<rparr>
     = Some \<lparr>status = 500, content = JSON (JObj [(''detail'', JStr ''Error: no API key'')])\<rparr>"
proof -
  have h: "chat_try raising_library \<lparr>message = ''hi'', agent_type = ''groq'', model = ''llama''\<rparr>
     = Inl (Exception ''no API key'')"
    by (simp add: chat_try_def and_then_def raising_library_def)
  from chat_exception_500 [OF h] h show ?thesis by simp
qed


text \<open>
  C5 as stated fails: for the exception with the text \<open>no API key\<close> the detail is
  \<open>Error: no API key\<close>, which is not the text of the exception.
\<close>

theorem chat_detail_is_not_raw_text:
  "chat True raising_library \<lparr>message = ''hi'', agent_type = ''openai'', model = ''gpt-4''\<rparr>
     = Inl (HTTPException 500 ''Error: no API key'')
   \<and> detail (HTTPException 500 ''Error: no API key'') \<noteq> str (Exception ''no API key'')"
  by (simp add: chat_def chat_try_def and_then_def raising_library_def)


text \<open>
  C6, as amended. The content that the agents handler passes to the template depends on
  the flag only: with the flag false it holds the panel that says \<open>AgentGateway library
  not available.\<close>, with the flag true it does not. The content that the tools handler
  passes to the template is one fixed text, which does not depend on the flag and holds no
  such panel.
\<close>

theorem agents_tools_content:
  "agents_list False = agents_list_unavailable
   \<and> sublist (agents_list False) (agents_content False)
   \<and> sublist ''AgentGateway library not available.'' (agents_content False)
   \<and> \<not> sublist ''not available'' (agents_content True)
   \<and> \<not> sublist ''not available'' tools_content"
proof -
  have "sublist (agents_list False) (agents_content False)"
    unfolding agents_content_def sublist_def
    by (rule exI [of _ "[] @ CHR 0x0A # (''    <h2>'' @ robot_face @ '' Available Agents</h2>'') @ CHR 0x0A # ''    <p>AgentGateway supports multiple AI providers and models.</p>'' @ CHR 0x0A # ''    ''"],
        rule exI [of _ "CHR 0x0A # ''    ''"]) simp
  then show ?thesis
    by (simp add: agents_list_def agents_unavailable_panel agents_available_no_panel
        tools_content_no_panel)
qed


text \<open>
  C6 as stated fails for the tools page with the flag false: the request is answered with
  status 500, and the content that the handler had built says nothing about availability.
\<close>

theorem tools_page_has_no_error_panel:
  "app_get False ''/tools'' = Some \<lparr>status = 500, content = PlainText ''Internal Server Error''\<rparr>
   \<and> \<not> sublist ''not available'' tools_content"
  by (simp add: app_get_def html_response_def internal_server_error_def tools_KeyError
      tools_content_no_panel)


text \<open>
  C7, evaluated. The dashboard and the playground return their fixed, non-empty HTML with
  status 200. The agents and the tools handler raise \<open>KeyError\<close> inside \<open>format\<close>, for
  either value of the flag, and their routes answer with status 500.
\<close>

theorem page_routes:
  "app_get flag ''/'' = Some \<lparr>status = 200, content = HTML dashboard\<rparr>
   \<and> dashboard \<noteq> []
   \<and> app_get flag ''/playground'' = Some \<lparr>status = 200, content = HTML playground\<rparr>
   \<and> playground \<noteq> []
   \<and> agents flag = Inl (KeyError '' margin'')
   \<and> app_get flag ''/agents'' = Some \<lparr>status = 500, content = PlainText ''Internal Server Error''\<rparr>
   \<and> tools = Inl (KeyError '' margin'')
   \<and> app_get flag ''/tools'' = Some \<lparr>status = 500, content = PlainText ''Internal Server Error''\<rparr>"
  by (simp add: app_get_def html_response_def internal_server_error_def agents_KeyError
      tools_KeyError dashboard_nonempty playground_nonempty)


text \<open>
  C8. When the body of the \<open>try\<close> block returns and the requested agent type is none of
  \<open>openai\<close>, \<open>anthropic\<close>, \<open>groq\<close> and \<open>bedrock\<close>, the local variable \<open>agent_type\<close> is
  the value of \<open>AgentType.OPENAI_GPT\<close>, no error is raised, and the response text still
  contains the requested agent type as the caller wrote it.
\<close>

theorem chat_unknown_agent_type:
  assumes "chat_try lib request = Inr (locals, result)"
    and "agent_type request \<notin> {''openai'', ''anthropic'', ''groq'', ''bedrock''}"
  shows "AgentType lib ''OPENAI_GPT'' = Inr (agent_type' locals)
     \<and> sublist (agent_type request) (response_text locals)
     \<and> chat True lib request =
         Inr (JObj [(''response'', JStr (response_text locals)),
                    (''agent_type'', JStr (agent_type request)),
                    (''model'', JStr (model request)),
                    (''status'', JStr ''success'')])"
proof -
  let ?text = "''Mock response for '' @ [CHR 0x27] @ message request @ [CHR 0x27] @
              '' using '' @ agent_type request @ '' model '' @ model request"
  have t: "response_text locals = ?text"
    using assms(1) by (auto simp add: chat_try_def and_then_def Let_def split: sum.splits)
  have s: "sublist (agent_type request) (response_text locals)"
    unfolding t by (rule response_text_contains)
  have d: "AgentType lib ''OPENAI_GPT'' = Inr (agent_type' locals)"
    using assms by (auto simp add: chat_try_def and_then_def Let_def split: sum.splits)
  have c: "chat True lib request =
         Inr (JObj [(''response'', JStr (response_text locals)),
                    (''agent_type'', JStr (agent_type request)),
                    (''model'', JStr (model request)),
                    (''status'', JStr ''success'')])"
    using assms(1) by (auto simp add: chat_def chat_try_def and_then_def Let_def split: sum.splits)
  from d s c show ?thesis by (intro conjI)
qed

theorem chat_unknown_agent_type_witness:
  "\<exists>locals result.
     chat_try working_library \<lparr>message = ''hi'', agent_type = ''mistral'', model = ''m7''\<rparr>
       = Inr (locals, result)
   \<and> ''mistral'' \<notin> {''openai'', ''anthropic'', ''groq'', ''bedrock''}
   \<and> agent_type' locals = ''OPENAI_GPT''
   \<and> response_text locals = ''Mock response for 'hi' using mistral model m7''
   \<and> sublist ''mistral'' (response_text locals)"
proof -
  let ?r = "\<lparr>message = ''hi'', agent_type = ''mistral'', model = ''m7''\<rparr>"
  obtain locals result where h: "chat_try working_library ?r = Inr (locals, result)"
    by (simp add: chat_try_def and_then_def working_library_def Let_def)
  have n: "agent_type ?r \<notin> {''openai'', ''anthropic'', ''groq'', ''bedrock''}" by simp
  have t: "response_text locals = ''Mock response for 'hi' using mistral model m7''"
    using h by (auto simp add: chat_try_def and_then_def working_library_def Let_def)
  from chat_unknown_agent_type [OF h n] h t show ?thesis
    by (simp add: working_library_def)
qed


text \<open>
  C9. The three routes of the Context7 service return status 200 and a literal JSON
  object each; \<open>GET /health\<close> returns \<open>status\<close> \<open>healthy\<close> and \<open>service\<close> \<open>context7-mcp\<close>.
  The handlers take no argument.
\<close>

theorem context7_literal_responses:
  "context7_get ''/health'' =
     Some \<lparr>status = 200,
           content = JSON (JObj [(''status'', JStr ''healthy''), (''service'', JStr ''context7-mcp'')])\<rparr>
   \<and> context7_get ''/mcp/capabilities'' =
     Some \<lparr>status = 200,
           content = JSON (JObj [(''capabilities'', JList [JStr ''search'', JStr ''upload'', JStr ''index'']),
                                 (''service'', JStr ''context7-mcp'')])\<rparr>
   \<and> context7_get ''/'' =
     Some \<lparr>status = 200,
           content = JSON (JObj [(''message'', JStr ''Context7 MCP Service''),
                                 (''version'', JStr ''0.1.0'')])\<rparr>"
  by (simp add: context7_get_def json_response_def context7_health_check_def
      context7_mcp_capabilities_def context7_root_def)


text \<open>
  C10. A body builds a \<open>ChatRequest\<close> exactly when it has a \<open>message\<close>; a missing
  \<open>agent_type\<close> becomes \<open>openai\<close> and a missing \<open>model\<close> becomes \<open>gpt-3.5-turbo\<close>, and a
  field that is present is taken as it is. When the chat handler returns, the object it
  returns holds the response text, the request's \<open>agent_type\<close> and \<open>model\<close> unchanged, and
  the status \<open>success\<close>.
\<close>

theorem chat_request_defaults:
  "((\<exists>r. ChatRequest_validate body = Inr r) \<longleftrightarrow> body ''message'' \<noteq> None)
   \<and> (\<forall>r. ChatRequest_validate body = Inr r \<longrightarrow>
          body ''message'' = Some (message r)
        \<and> (body ''agent_type'' = None \<longrightarrow> agent_type r = ''openai'')
        \<and> (body ''model'' = None \<longrightarrow> model r = ''gpt-3.5-turbo'')
        \<and> (\<forall>a. body ''agent_type'' = Some a \<longrightarrow> agent_type r = a)
        \<and> (\<forall>v. body ''model'' = Some v \<longrightarrow> model r = v))
   \<and> (\<forall>result. chat True lib request = Inr result \<longrightarrow>
          result = JObj [(''response'', JStr (''Mock response for '' @ [CHR 0x27] @ message request @
                            [CHR 0x27] @ '' using '' @ agent_type request @ '' model '' @ model request)),
                         (''agent_type'', JStr (agent_type request)),
                         (''model'', JStr (model request)),
                         (''status'', JStr ''success'')])"
  by (auto simp add: ChatRequest_validate_def chat_def chat_try_def and_then_def Let_def
      split: option.splits sum.splits if_splits)

theorem chat_request_defaults_witness:
  "ChatRequest_validate [''message'' \<mapsto> ''hi''] =
     Inr \<lparr>message = ''hi'', agent_type = ''openai'', model = ''gpt-3.5-turbo''\<rparr>
   \<and> chat True working_library \<lparr>message = ''hi'', agent_type = ''openai'', model = ''gpt-3.5-turbo''\<rparr> =
     Inr (JObj [(''response'', JStr ''Mock response for 'hi' using openai model gpt-3.5-turbo''),
                (''agent_type'', JStr ''openai''),
                (''model'', JStr ''gpt-3.5-turbo''),
                (''status'', JStr ''success'')])"
proof -
  let ?body = "[''message'' \<mapsto> ''hi'']"
  let ?request = "\<lparr>message = ''hi'', agent_type = ''openai'', model = ''gpt-3.5-turbo''\<rparr>"
  have m: "?body ''message'' \<noteq> None" by simp
  from chat_request_defaults [of ?body working_library ?request] m
  obtain r where r: "ChatRequest_validate ?body = Inr r" by blast
  from chat_request_defaults [of ?body working_library ?request] r
  have "message r = ''hi''" "agent_type r = ''openai''" "model r = ''gpt-3.5-turbo''"
    by simp_all
  then have v: "ChatRequest_validate ?body = Inr ?request" using r by simp
  obtain result where c: "chat True working_library ?request = Inr result"
    by (simp add: chat_def chat_try_def and_then_def Let_def working_library_def)
  from chat_request_defaults [of ?body working_library ?request] c
  have "result = JObj [(''response'', JStr ''Mock response for 'hi' using openai model gpt-3.5-turbo''),
                (''agent_type'', JStr ''openai''),
                (''model'', JStr ''gpt-3.5-turbo''),
                (''status'', JStr ''success'')]"
    by simp
  with v c show ?thesis by simp
qed

end
